theory Spec2Isabelle
  imports Complex_Main
begin

section \<open>The Python runtime the two programs use\<close>

text \<open>
  Exceptions are values. Each constructor is a Python exception class and carries the
  message that \<^verbatim>\<open>str(e)\<close> prints.
\<close>

datatype error =
    ValueError string
  | TypeError string
  | IndexError string
  | ZeroDivisionError string
  | OSError string
  | LibraryError string

fun str :: "error \<Rightarrow> string" where
  "str (ValueError m) = m"
| "str (TypeError m) = m"
| "str (IndexError m) = m"
| "str (ZeroDivisionError m) = m"
| "str (OSError m) = m"
| "str (LibraryError m) = m"

text \<open>
  The process-wide state both programs touch: the global generator of the module
  \<^verbatim>\<open>random\<close> and standard output. The generator is a source of raw outcomes, read
  front to back; a source that has run out keeps answering 0, so that a finite list stands
  for the infinite stream it begins. The functions below work on every extension of the
  record, so that the same definitions run with and without a heap of objects.
\<close>

record world =
  rand :: "nat list"
  out :: "string list"

definition next_raw :: "'a world_scheme \<Rightarrow> nat \<times> 'a world_scheme" where
  "next_raw w = (case rand w of [] \<Rightarrow> (0, w) | r # rs \<Rightarrow> (r, w\<lparr>rand := rs\<rparr>))"

text \<open>\<^verbatim>\<open>random._randbelow(n)\<close>, for \<open>0 < n\<close>: some value below \<open>n\<close>.\<close>

definition randbelow :: "nat \<Rightarrow> 'a world_scheme \<Rightarrow> nat \<times> 'a world_scheme" where
  "randbelow n w = (case next_raw w of (r, w') \<Rightarrow> (r mod n, w'))"

text \<open>
  \<^verbatim>\<open>random.randint(a, b)\<close> is \<^verbatim>\<open>a + _randbelow(b - a + 1)\<close>. Both programs call it
  with literal bounds \<open>a \<le> b\<close> only, where it cannot raise.
\<close>

definition randint :: "int \<Rightarrow> int \<Rightarrow> 'a world_scheme \<Rightarrow> int \<times> 'a world_scheme" where
  "randint a b w = (case randbelow (nat (b - a + 1)) w of (r, w') \<Rightarrow> (a + int r, w'))"

text \<open>\<^verbatim>\<open>print(line)\<close>.\<close>

definition print :: "string \<Rightarrow> 'a world_scheme \<Rightarrow> 'a world_scheme" where
  "print line w = w\<lparr>out := out w @ [line]\<rparr>"

text \<open>
  \<^verbatim>\<open>random.random()\<close> returns \<open>k / 2^53\<close> for some \<open>k < 2^53\<close>, and
  \<^verbatim>\<open>random.uniform(a, b)\<close> is \<^verbatim>\<open>a + (b - a) * random()\<close>. Floating point numbers are
  modelled as reals.
\<close>

definition random_random :: "'a world_scheme \<Rightarrow> real \<times> 'a world_scheme" where
  "random_random w = (case next_raw w of (r, w') \<Rightarrow> (real (r mod 2 ^ 53) / 2 ^ 53, w'))"

definition uniform :: "real \<Rightarrow> real \<Rightarrow> 'a world_scheme \<Rightarrow> real \<times> 'a world_scheme" where
  "uniform a b w = (case random_random w of (u, w') \<Rightarrow> (a + (b - a) * u, w'))"

text \<open>\<^verbatim>\<open>random.choice(seq)\<close> is \<^verbatim>\<open>seq[_randbelow(len(seq))]\<close>; both programs call it
  with literal lists that are not empty.\<close>

definition choice :: "'b list \<Rightarrow> 'a world_scheme \<Rightarrow> 'b \<times> 'a world_scheme" where
  "choice seq w = (case randbelow (length seq) w of (k, w') \<Rightarrow> (seq ! k, w'))"

text \<open>
  \<^verbatim>\<open>random.sample(population, k)\<close>, as CPython runs it for a population of at most 21
  elements: it raises when \<open>k\<close> is negative or larger than the population, and otherwise
  picks \<open>k\<close> times a position \<open>j\<close> of the pool that is left, takes the element there and
  moves the last element of the pool to position \<open>j\<close>.
\<close>

fun sample_loop :: "'b list \<Rightarrow> nat \<Rightarrow> 'a world_scheme \<Rightarrow> 'b list \<times> 'a world_scheme" where
  "sample_loop pool 0 w = ([], w)"
| "sample_loop pool (Suc k) w =
     (case randbelow (length pool) w of
        (j, w') \<Rightarrow>
          (case sample_loop (butlast (pool[j := last pool])) k w' of
             (result, w'') \<Rightarrow> (pool ! j # result, w'')))"

definition sample :: "'b list \<Rightarrow> int \<Rightarrow> 'a world_scheme \<Rightarrow> (error + 'b list) \<times> 'a world_scheme" where
  "sample population k w =
     (if \<not> (0 \<le> k \<and> k \<le> int (length population))
      then (Inl (ValueError ''Sample larger than population or is negative''), w)
      else (case sample_loop population (nat k) w of (result, w') \<Rightarrow> (Inr result, w')))"

text \<open>\<^verbatim>\<open>int(x)\<close> of a float: truncation towards zero.\<close>

definition py_int :: "real \<Rightarrow> int" where
  "py_int x = (if 0 \<le> x then \<lfloor>x\<rfloor> else \<lceil>x\<rceil>)"

text \<open>\<^verbatim>\<open>str(n)\<close> of a natural number, and \<^verbatim>\<open>os.path.splitext(name)\<close> of a file name
  without directories: the name is split at its last dot, unless only dots stand before
  it.\<close>

fun str_nat :: "nat \<Rightarrow> string" where
  "str_nat n =
     (if n < 10 then [char_of (48 + n)] else str_nat (n div 10) @ [char_of (48 + n mod 10)])"

declare str_nat.simps [simp del]

definition splitext :: "string \<Rightarrow> string \<times> string" where
  "splitext name =
     (let ext = rev (takeWhile (\<lambda>c. c \<noteq> CHR ''.'') (rev name));
          root = take (length name - length ext - 1) name
      in if length ext = length name \<or> list_all (\<lambda>c. c = CHR ''.'') root
         then (name, [])
         else (root, CHR ''.'' # ext))"

text \<open>\<^verbatim>\<open>s.lower()\<close> on ASCII.\<close>

definition py_lower :: "string \<Rightarrow> string" where
  "py_lower s =
     map (\<lambda>c. if 65 \<le> (of_char c :: nat) \<and> (of_char c :: nat) \<le> 90
              then char_of ((of_char c :: nat) + 32) else c) s"

text \<open>Sequencing of steps that can raise: the first exception ends the sequence.\<close>

definition and_then :: "error + 'b \<Rightarrow> ('b \<Rightarrow> error + 'c) \<Rightarrow> error + 'c" where
  "and_then x f = (case x of Inl e \<Rightarrow> Inl e | Inr v \<Rightarrow> f v)"

text \<open>
  Objects that several names can refer to live in a heap: a reference is a position in
  the list of all objects made so far, and making an object appends it. The files written
  are kept with their paths, in the order of writing.
\<close>

record 'o heap_world = world +
  heap :: "'o list"
  files :: "(string \<times> 'o) list"

type_synonym ref = nat

definition new_object :: "'o \<Rightarrow> ('o, 'x) heap_world_scheme \<Rightarrow> ref \<times> ('o, 'x) heap_world_scheme" where
  "new_object v w = (length (heap w), w\<lparr>heap := heap w @ [v]\<rparr>)"

text \<open>
  A function of the program that takes a buffer and returns one, or raises: on values, or
  on references into the heap.
\<close>

type_synonym ('b, 'a) kernel = "'b \<Rightarrow> 'a world_scheme \<Rightarrow> (error + 'b) \<times> 'a world_scheme"

text \<open>Kernels applied one after the other, each on the result of the one before; an
  exception ends the sequence and leaves it.\<close>

fun apply_all :: "('b, 'a) kernel list \<Rightarrow> ('b, 'a) kernel" where
  "apply_all [] b w = (Inr b, w)"
| "apply_all (k # ks) b w =
     (case k b w of
        (Inl e, w') \<Rightarrow> (Inl e, w')
      | (Inr b', w') \<Rightarrow> apply_all ks b' w')"

text \<open>
  The selection both composers make: \<^verbatim>\<open>n = random.randint(1, most)\<close> and then
  \<^verbatim>\<open>random.sample(augmentations, min(n, len(augmentations)))\<close>.
\<close>

definition select_augmentations ::
  "int \<Rightarrow> 'k list \<Rightarrow> 'a world_scheme \<Rightarrow> (error + 'k list) \<times> 'a world_scheme" where
  "select_augmentations most augs w =
     (case randint 1 most w of
        (n, w1) \<Rightarrow> sample augs (min n (int (length augs))) w1)"

text \<open>A library function that builds its result as a new object and leaves its argument
  as it is.\<close>

definition returning_new ::
  "('o, ('o, 'x) heap_world_ext) kernel \<Rightarrow> (ref, ('o, 'x) heap_world_ext) kernel" where
  "returning_new k r w =
     (case k (heap w ! r) w of
        (Inl e, w') \<Rightarrow> (Inl e, w')
      | (Inr v, w') \<Rightarrow> (case new_object v w' of (r', w'') \<Rightarrow> (Inr r', w'')))"

section \<open>Images (imgaug.py)\<close>

subsection \<open>PIL images\<close>

text \<open>
  A PIL image: its mode, its size (width, height), its pixels, one list per row, and its
  palette (used by mode P only). \<^verbatim>\<open>pixels[i, j]\<close> is column \<open>i\<close> of row \<open>j\<close>. As PIL's
  pixel access returns them, a pixel of mode L is one number, of mode P one palette index,
  of mode RGB a triple and of mode RGBA a quadruple.
\<close>

datatype mode = ModeL | ModeP | ModeRGB | ModeRGBA

datatype pixel = PixL int | PixP nat | PixRGB int int int | PixRGBA int int int int

record image =
  mode :: mode
  isize :: "nat \<times> nat"
  rows :: "pixel list list"
  palette :: "(int \<times> int \<times> int) list"

fun has_mode :: "mode \<Rightarrow> pixel \<Rightarrow> bool" where
  "has_mode ModeL (PixL v) = True"
| "has_mode ModeP (PixP k) = True"
| "has_mode ModeRGB (PixRGB r g b) = True"
| "has_mode ModeRGBA (PixRGBA r g b a) = True"
| "has_mode m p = False"

text \<open>The images PIL can hold: the grid has the declared size and every pixel has the
  shape of the mode.\<close>

definition wf_image :: "image \<Rightarrow> bool" where
  "wf_image img =
     (length (rows img) = snd (isize img) \<and>
      list_all (\<lambda>row. length row = fst (isize img) \<and> list_all (has_mode (mode img)) row)
        (rows img))"

text \<open>\<^verbatim>\<open>image.convert('RGB')\<close>: a grey value is repeated, a palette index is looked up, an
  alpha channel is dropped.\<close>

fun to_rgb :: "(int \<times> int \<times> int) list \<Rightarrow> pixel \<Rightarrow> pixel" where
  "to_rgb pal (PixL v) = PixRGB v v v"
| "to_rgb pal (PixP k) =
     (if k < length pal then (case pal ! k of (r, g, b) \<Rightarrow> PixRGB r g b) else PixRGB 0 0 0)"
| "to_rgb pal (PixRGB r g b) = PixRGB r g b"
| "to_rgb pal (PixRGBA r g b a) = PixRGB r g b"

definition convert_RGB :: "image \<Rightarrow> image" where
  "convert_RGB img =
     img\<lparr>mode := ModeRGB, rows := map (map (to_rgb (palette img))) (rows img)\<rparr>"

text \<open>Pixel access: reading and writing \<^verbatim>\<open>pixels[i, j]\<close>; outside the image PIL raises.\<close>

definition in_image :: "image \<Rightarrow> nat \<Rightarrow> nat \<Rightarrow> bool" where
  "in_image img i j =
     (i < fst (isize img) \<and> j < snd (isize img) \<and>
      j < length (rows img) \<and> i < length (rows img ! j))"

definition getpixel :: "image \<Rightarrow> nat \<Rightarrow> nat \<Rightarrow> error + pixel" where
  "getpixel img i j =
     (if in_image img i j then Inr (rows img ! j ! i)
      else Inl (IndexError ''image index out of range''))"

definition putpixel :: "image \<Rightarrow> nat \<Rightarrow> nat \<Rightarrow> pixel \<Rightarrow> image" where
  "putpixel img i j p = img\<lparr>rows := (rows img)[j := (rows img ! j)[i := p]]\<rparr>"

text \<open>The unpacking \<^verbatim>\<open>r, g, b = pixels[i, j]\<close>.\<close>

fun unpack3 :: "pixel \<Rightarrow> error + (int \<times> int \<times> int)" where
  "unpack3 (PixRGB r g b) = Inr (r, g, b)"
| "unpack3 (PixL v) = Inl (TypeError ''cannot unpack non-iterable int object'')"
| "unpack3 (PixP k) = Inl (TypeError ''cannot unpack non-iterable int object'')"
| "unpack3 (PixRGBA r g b a) = Inl (ValueError ''too many values to unpack (expected 3)'')"

subsection \<open>add_noise\<close>

text \<open>
  The loops write into the pixel buffer of the image object, so they are transformers of
  that buffer: they return the exception that ended them, if one did, and the buffer as it
  is then. First the inner loop \<^verbatim>\<open>for j in range(image.size[1])\<close>, for one column \<open>i\<close>.
\<close>

fun add_noise_inner ::
  "nat \<Rightarrow> nat list \<Rightarrow> image \<Rightarrow> 'a world_scheme \<Rightarrow> error option \<times> image \<times> 'a world_scheme" where
  "add_noise_inner i [] img w = (None, img, w)"
| "add_noise_inner i (j # js) img w =
     (case getpixel img i j of
        Inl e \<Rightarrow> (Some e, img, w)
      | Inr p \<Rightarrow>
          (case unpack3 p of
             Inl e \<Rightarrow> (Some e, img, w)
           | Inr (r, g, b) \<Rightarrow>
               (case randint (- 20) 20 w of
                  (noise, w') \<Rightarrow>
                    add_noise_inner i js
                      (putpixel img i j
                         (PixRGB (max 0 (min (r + noise) 255))
                                 (max 0 (min (g + noise) 255))
                                 (max 0 (min (b + noise) 255))))
                      w')))"

text \<open>The outer loop \<^verbatim>\<open>for i in range(image.size[0])\<close>.\<close>

fun add_noise_outer ::
  "nat list \<Rightarrow> image \<Rightarrow> 'a world_scheme \<Rightarrow> error option \<times> image \<times> 'a world_scheme" where
  "add_noise_outer [] img w = (None, img, w)"
| "add_noise_outer (i # is) img w =
     (case add_noise_inner i [0..<snd (isize img)] img w of
        (Some e, img', w') \<Rightarrow> (Some e, img', w')
      | (None, img', w') \<Rightarrow> add_noise_outer is img' w')"

text \<open>
  \<open>add_noise_pixels\<close> is lines 10 to 19 on the buffer of an RGB image; \<open>add_noise\<close> is
  the function as a caller sees it, on an image that no other name refers to: the image
  returned, or the exception raised.
\<close>

definition add_noise_pixels ::
  "image \<Rightarrow> 'a world_scheme \<Rightarrow> error option \<times> image \<times> 'a world_scheme" where
  "add_noise_pixels img w = add_noise_outer [0..<fst (isize img)] img w"

definition add_noise :: "image \<Rightarrow> 'a world_scheme \<Rightarrow> (error + image) \<times> 'a world_scheme" where
  "add_noise img0 w =
     (let img = (if mode img0 \<noteq> ModeRGB then convert_RGB img0 else img0)
      in case add_noise_pixels img w of
           (Some e, img', w') \<Rightarrow> (Inl e, w')
         | (None, img', w') \<Rightarrow> (Inr img', w'))"

subsection \<open>The other kernels\<close>

text \<open>
  \<^verbatim>\<open>image.transpose(method)\<close>, for the methods the program reaches. A quarter turn swaps
  width and height.
\<close>

datatype transpose_method = FLIP_LEFT_RIGHT | ROTATE_90 | ROTATE_180 | ROTATE_270

fun transpose_image :: "image \<Rightarrow> transpose_method \<Rightarrow> image" where
  "transpose_image img FLIP_LEFT_RIGHT = img\<lparr>rows := map rev (rows img)\<rparr>"
| "transpose_image img ROTATE_180 = img\<lparr>rows := rev (map rev (rows img))\<rparr>"
| "transpose_image img ROTATE_90 =
     img\<lparr>isize := (snd (isize img), fst (isize img)),
         rows := map (\<lambda>y. map (\<lambda>x. rows img ! x ! (fst (isize img) - 1 - y))
                               [0..<snd (isize img)])
                     [0..<fst (isize img)]\<rparr>"
| "transpose_image img ROTATE_270 =
     img\<lparr>isize := (snd (isize img), fst (isize img)),
         rows := map (\<lambda>y. map (\<lambda>x. rows img ! (snd (isize img) - 1 - x) ! y)
                               [0..<snd (isize img)])
                     [0..<fst (isize img)]\<rparr>"

definition mirror_image :: "image \<Rightarrow> image" where
  "mirror_image img = transpose_image img FLIP_LEFT_RIGHT"

text \<open>
  \<^verbatim>\<open>image.transform(size, Image.AFFINE, (a, b, c, d, e, f))\<close> with PIL's defaults (nearest
  neighbour, no fill colour): the pixel \<open>(x, y)\<close> of the result is the pixel of the input
  at \<open>(\<lfloor>a (x + 1/2) + b (y + 1/2) + c\<rfloor>, \<lfloor>d (x + 1/2) + e (y + 1/2) + f\<rfloor>)\<close>, and a
  zero pixel where that lies outside the input.
\<close>

fun blank :: "mode \<Rightarrow> pixel" where
  "blank ModeL = PixL 0"
| "blank ModeP = PixP 0"
| "blank ModeRGB = PixRGB 0 0 0"
| "blank ModeRGBA = PixRGBA 0 0 0 0"

definition transform_AFFINE ::
  "image \<Rightarrow> nat \<times> nat \<Rightarrow> real \<times> real \<times> real \<times> real \<times> real \<times> real \<Rightarrow> image" where
  "transform_AFFINE img size0 data =
     (case data of
        (a, b, c, d, e, f) \<Rightarrow>
          img\<lparr>isize := size0,
              rows :=
                map (\<lambda>y. map (\<lambda>x.
                       let xin = \<lfloor>a * (real x + 1 / 2) + b * (real y + 1 / 2) + c\<rfloor>;
                           yin = \<lfloor>d * (real x + 1 / 2) + e * (real y + 1 / 2) + f\<rfloor>
                       in if 0 \<le> xin \<and> xin < int (fst (isize img)) \<and>
                             0 \<le> yin \<and> yin < int (snd (isize img))
                          then rows img ! nat yin ! nat xin
                          else blank (mode img))
                     [0..<fst size0])
                  [0..<snd size0]\<rparr>)"

definition shift_image :: "image \<Rightarrow> int \<Rightarrow> int \<Rightarrow> image" where
  "shift_image img shift_x shift_y =
     transform_AFFINE img (isize img) (1, 0, real_of_int shift_x, 0, 1, real_of_int shift_y)"

text \<open>
  \<^verbatim>\<open>image.rotate(angle)\<close> with PIL's defaults (no expansion of the canvas, rotation about
  the centre, nearest neighbour): a half turn and, on a square image, a quarter turn are
  transpositions; every other turn is the affine map of the rotation by \<open>- angle\<close> about
  the centre \<open>(w / 2, h / 2)\<close>, into a canvas of the size of the input. The matrix is
  \<open>(cos, sin, 0, - sin, cos, 0)\<close> of \<open>- angle\<close>, then moved to the centre. The program
  passes 90, 180 and 270 only; the cosine and sine of other angles are outside this model,
  and \<open>rotate\<close> is \<open>None\<close> for them.
\<close>

definition cos_sin_minus :: "int \<Rightarrow> (real \<times> real) option" where
  "cos_sin_minus angle =
     (if angle = 0 then Some (1, 0)
      else if angle = 90 then Some (0, - 1)
      else if angle = 180 then Some (- 1, 0)
      else if angle = 270 then Some (0, 1)
      else None)"

definition rotate :: "image \<Rightarrow> int \<Rightarrow> image option" where
  "rotate img angle0 =
     (let angle = angle0 mod 360; w = fst (isize img); h = snd (isize img)
      in if angle = 0 then Some img
         else if angle = 180 then Some (transpose_image img ROTATE_180)
         else if (angle = 90 \<or> angle = 270) \<and> w = h
           then Some (transpose_image img (if angle = 90 then ROTATE_90 else ROTATE_270))
         else
           (case cos_sin_minus angle of
              None \<Rightarrow> None
            | Some (cos_t, sin_t) \<Rightarrow>
                (let cx = real w / 2; cy = real h / 2;
                     a = cos_t; b = sin_t; d = - sin_t; e = cos_t;
                     c = a * (- cx) + b * (- cy) + cx;
                     f = d * (- cx) + e * (- cy) + cy
                 in Some (transform_AFFINE img (isize img) (a, b, c, d, e, f)))))"

subsection \<open>augment_image\<close>

text \<open>
  The three kernels that are PIL's floating point filters are parameters of the model:
  \<^verbatim>\<open>img.filter(ImageFilter.GaussianBlur(radius))\<close>,
  \<^verbatim>\<open>ImageEnhance.Brightness(img).enhance(factor)\<close> and
  \<^verbatim>\<open>ImageEnhance.Contrast(img).enhance(factor)\<close>. Each returns a new image or raises.
\<close>

record pil =
  GaussianBlur :: "real \<Rightarrow> image \<Rightarrow> error + image"
  Brightness :: "real \<Rightarrow> image \<Rightarrow> error + image"
  Contrast :: "real \<Rightarrow> image \<Rightarrow> error + image"

text \<open>The list \<^verbatim>\<open>augmentations\<close> of lines 29 to 37: seven closures, each drawing its
  parameters when it is called.\<close>

definition blur_kernel :: "pil \<Rightarrow> (image, 'a) kernel" where
  "blur_kernel lib img w =
     (case uniform 0.5 1.5 w of (radius, w') \<Rightarrow> (GaussianBlur lib radius img, w'))"

definition brightness_kernel :: "pil \<Rightarrow> (image, 'a) kernel" where
  "brightness_kernel lib img w =
     (case uniform 0.8 1.2 w of (factor, w') \<Rightarrow> (Brightness lib factor img, w'))"

definition contrast_kernel :: "pil \<Rightarrow> (image, 'a) kernel" where
  "contrast_kernel lib img w =
     (case uniform 0.8 1.2 w of (factor, w') \<Rightarrow> (Contrast lib factor img, w'))"

definition rotate_kernel :: "(image, 'a) kernel" where
  "rotate_kernel img w =
     (case choice [90, 180, 270] w of
        (angle, w') \<Rightarrow>
          (case rotate img angle of
             Some img' \<Rightarrow> (Inr img', w')
           | None \<Rightarrow> (Inl (LibraryError ''rotation by this angle is not modelled''), w')))"

definition mirror_kernel :: "(image, 'a) kernel" where
  "mirror_kernel img w = (Inr (mirror_image img), w)"

definition shift_kernel :: "(image, 'a) kernel" where
  "shift_kernel img w =
     (case randint 20 30 w of
        (shift_x, w1) \<Rightarrow>
          (case randint (- 10) 10 w1 of
             (shift_y, w2) \<Rightarrow> (Inr (shift_image img shift_x shift_y), w2)))"


text \<open>
  Lines 42 to 48, the \<^verbatim>\<open>try\<close> statement: the loop rebinds \<^verbatim>\<open>image\<close> to the result of
  each kernel; when a kernel raises, the handler prints the error and returns what
  \<^verbatim>\<open>image\<close> is bound to then.
\<close>

fun try_augmentations :: "('b, 'a) kernel list \<Rightarrow> 'b \<Rightarrow> 'a world_scheme \<Rightarrow> 'b \<times> 'a world_scheme" where
  "try_augmentations [] img w = (img, w)"
| "try_augmentations (augmentation # rest) img w =
     (case augmentation img w of
        (Inl e, w') \<Rightarrow> (img, print (''Error applying augmentation: '' @ str e) w')
      | (Inr img', w') \<Rightarrow> try_augmentations rest img' w')"

text \<open>Lines 39 to 48, for a given list \<^verbatim>\<open>augmentations\<close>. What \<^verbatim>\<open>random.sample\<close> raises
  is raised outside the \<^verbatim>\<open>try\<close> statement and leaves the function.\<close>

definition augment_image_with :: "('b, 'a) kernel list \<Rightarrow> ('b, 'a) kernel" where
  "augment_image_with augs img w =
     (case select_augmentations 4 augs w of
        (Inl e, w2) \<Rightarrow> (Inl e, w2)
      | (Inr selected_augmentations, w2) \<Rightarrow>
          (case try_augmentations selected_augmentations img w2 of
             (img', w3) \<Rightarrow> (Inr img', w3)))"


subsection \<open>The driver's loop over the copies\<close>

text \<open>
  On the heap, \<open>add_noise\<close> converts into a new object when the mode is not RGB and
  then writes the pixels of the object it holds, in place; every other kernel is a library
  function that returns a new image.
\<close>

definition add_noise_ref :: "(ref, (image, 'x) heap_world_ext) kernel" where
  "add_noise_ref r0 w0 =
     (case (if mode (heap w0 ! r0) \<noteq> ModeRGB then new_object (convert_RGB (heap w0 ! r0)) w0
            else (r0, w0)) of
        (r, w) \<Rightarrow>
          (case add_noise_pixels (heap w ! r) w of
             (Some e, img', w') \<Rightarrow> (Inl e, w'\<lparr>heap := (heap w')[r := img']\<rparr>)
           | (None, img', w') \<Rightarrow> (Inr r, w'\<lparr>heap := (heap w')[r := img']\<rparr>)))"

definition augmentations_ref :: "pil \<Rightarrow> (ref, (image, 'x) heap_world_ext) kernel list" where
  "augmentations_ref lib =
     [returning_new (blur_kernel lib), returning_new (brightness_kernel lib),
      returning_new (contrast_kernel lib), add_noise_ref,
      returning_new rotate_kernel, returning_new mirror_kernel, returning_new shift_kernel]"

definition augment_image_ref :: "pil \<Rightarrow> (ref, (image, 'x) heap_world_ext) kernel" where
  "augment_image_ref lib = augment_image_with (augmentations_ref lib)"

text \<open>\<^verbatim>\<open>img.copy()\<close> makes a new object with the same content.\<close>

definition copy_ref :: "ref \<Rightarrow> ('o, 'x) heap_world_scheme \<Rightarrow> ref \<times> ('o, 'x) heap_world_scheme" where
  "copy_ref r w = new_object (heap w ! r) w"

text \<open>\<^verbatim>\<open>augmented_img.save(output_path, 'JPEG')\<close>: PIL writes the modes L and RGB as JPEG
  and raises for a palette or an alpha channel.\<close>

definition save_JPEG ::
  "ref \<Rightarrow> string \<Rightarrow> (image, 'x) heap_world_scheme \<Rightarrow> error option \<times> (image, 'x) heap_world_scheme" where
  "save_JPEG r output_path w =
     (if mode (heap w ! r) = ModeP then (Some (OSError ''cannot write mode P as JPEG''), w)
      else if mode (heap w ! r) = ModeRGBA
        then (Some (OSError ''cannot write mode RGBA as JPEG''), w)
      else (None, w\<lparr>files := files w @ [(output_path, heap w ! r)]\<rparr>))"

text \<open>Lines 65 to 70 of imgaug.py, the loop \<^verbatim>\<open>for i in range(num_copies)\<close> on the image
  \<open>img\<close> that line 63 opened. An exception leaves the loop (line 75 catches it).\<close>

fun image_copies ::
  "pil \<Rightarrow> string \<Rightarrow> string \<Rightarrow> ref \<Rightarrow> nat list \<Rightarrow> (image, 'x) heap_world_scheme \<Rightarrow>
   error option \<times> (image, 'x) heap_world_scheme" where
  "image_copies lib output_folder filename img [] w = (None, w)"
| "image_copies lib output_folder filename img (i # is) w =
     (case copy_ref img w of
        (c, w1) \<Rightarrow>
          (case augment_image_ref lib c w1 of
             (Inl e, w2) \<Rightarrow> (Some e, w2)
           | (Inr augmented_img, w2) \<Rightarrow>
               (case save_JPEG augmented_img
                       (output_folder @ ''/'' @ fst (splitext filename) @ ''_aug_'' @
                        str_nat (i + 1) @ ''.jpg'')
                       w2 of
                  (Some e, w3) \<Rightarrow> (Some e, w3)
                | (None, w3) \<Rightarrow> image_copies lib output_folder filename img is w3)))"

section \<open>Audio (speechaug.py)\<close>

subsection \<open>Python floats that can be infinite\<close>

text \<open>
  Loudness in dB is \<open>-inf\<close> for a silent clip, and line 23 of speechaug.py computes
  with it; so the floats there are reals, the two infinities and NaN, with the arithmetic
  of IEEE 754.
\<close>

datatype pyfloat = Finite real | PosInf | NegInf | NaN

fun float_neg :: "pyfloat \<Rightarrow> pyfloat" where
  "float_neg (Finite x) = Finite (- x)"
| "float_neg PosInf = NegInf"
| "float_neg NegInf = PosInf"
| "float_neg NaN = NaN"

fun float_sub :: "pyfloat \<Rightarrow> pyfloat \<Rightarrow> pyfloat" where
  "float_sub (Finite x) (Finite y) = Finite (x - y)"
| "float_sub NaN y = NaN"
| "float_sub x NaN = NaN"
| "float_sub PosInf PosInf = NaN"
| "float_sub NegInf NegInf = NaN"
| "float_sub PosInf y = PosInf"
| "float_sub NegInf y = NegInf"
| "float_sub (Finite x) PosInf = NegInf"
| "float_sub (Finite x) NegInf = PosInf"

text \<open>\<^verbatim>\<open>round(x)\<close> of a float: to the nearest integer, a tie to the even one.\<close>

definition py_round :: "real \<Rightarrow> int" where
  "py_round x =
     (if x - real_of_int \<lfloor>x\<rfloor> < 1 / 2 then \<lfloor>x\<rfloor>
      else if x - real_of_int \<lfloor>x\<rfloor> > 1 / 2 then \<lfloor>x\<rfloor> + 1
      else if even \<lfloor>x\<rfloor> then \<lfloor>x\<rfloor> else \<lfloor>x\<rfloor> + 1)"

text \<open>\<^verbatim>\<open>xs[s:e]\<close> of a sequence, with Python's reading of negative and large bounds.\<close>

definition py_slice :: "'b list \<Rightarrow> int \<Rightarrow> int \<Rightarrow> 'b list" where
  "py_slice xs s e =
     (let n = int (length xs);
          s' = max 0 (min n (if s < 0 then s + n else s));
          e' = max 0 (min n (if e < 0 then e + n else e))
      in take (nat (e' - s')) (drop (nat s') xs))"

subsection \<open>pydub's AudioSegment\<close>

text \<open>
  A segment: its raw samples (one number for each sample, the channels of a frame one
  after the other) and its metadata. The width of a sample is in bytes; a frame is one
  sample for each channel. Segments are never changed: every operation returns a segment.
\<close>

record audio =
  data :: "int list"
  sample_width :: nat
  frame_rate :: int
  channels :: nat

definition wf_audio :: "audio \<Rightarrow> bool" where
  "wf_audio a = (0 < frame_rate a \<and> 0 < channels a \<and> 0 < sample_width a)"

text \<open>
  What the model takes from outside: the resampling of \<^verbatim>\<open>audioop.ratecv\<close> on valid
  arguments, the noise generators of \<^verbatim>\<open>pydub.generators\<close> (which read the random
  source), what \<^verbatim>\<open>audioop.mul\<close> stores for a factor that is not a finite number, and
  whether the encoder behind \<^verbatim>\<open>export\<close> accepts a segment.
\<close>

record pydub =
  ratecv :: "int list \<Rightarrow> nat \<Rightarrow> nat \<Rightarrow> int \<Rightarrow> int \<Rightarrow> int list"
  to_audio_segment :: "string \<Rightarrow> int \<Rightarrow> nat list \<Rightarrow> (error + audio) \<times> nat list"
  mul_not_finite :: "int list \<Rightarrow> nat \<Rightarrow> pyfloat \<Rightarrow> error + int list"
  export :: "audio \<Rightarrow> string \<Rightarrow> error option"

text \<open>The module \<^verbatim>\<open>audioop\<close>: parameters are checked first; sums and products are
  cut off at the range of the sample width and rounded down.\<close>

definition check_width :: "nat \<Rightarrow> error option" where
  "check_width width =
     (if width \<in> {1, 2, 3, 4} then None else Some (LibraryError ''Size should be 1, 2, 3 or 4''))"

definition maxval :: "nat \<Rightarrow> int" where
  "maxval width = 2 ^ (8 * width - 1) - 1"

definition minval :: "nat \<Rightarrow> int" where
  "minval width = - (2 ^ (8 * width - 1))"

definition fbound :: "nat \<Rightarrow> real \<Rightarrow> int" where
  "fbound width x =
     (if x > real_of_int (maxval width) then maxval width
      else if x < real_of_int (minval width) + 1 then minval width
      else \<lfloor>x\<rfloor>)"

definition audioop_mul :: "pydub \<Rightarrow> int list \<Rightarrow> nat \<Rightarrow> pyfloat \<Rightarrow> error + int list" where
  "audioop_mul lib fragment width factor =
     (case check_width width of
        Some e \<Rightarrow> Inl e
      | None \<Rightarrow>
          (case factor of
             Finite f \<Rightarrow> Inr (map (\<lambda>v. fbound width (real_of_int v * f)) fragment)
           | _ \<Rightarrow> mul_not_finite lib fragment width factor))"

definition audioop_add :: "int list \<Rightarrow> int list \<Rightarrow> nat \<Rightarrow> error + int list" where
  "audioop_add fragment1 fragment2 width =
     (case check_width width of
        Some e \<Rightarrow> Inl e
      | None \<Rightarrow>
          if length fragment1 \<noteq> length fragment2
          then Inl (LibraryError ''Lengths should be the same'')
          else Inr (map (\<lambda>(v1, v2). fbound width (real_of_int (v1 + v2)))
                      (zip fragment1 fragment2)))"

definition audioop_rms :: "int list \<Rightarrow> nat \<Rightarrow> error + nat" where
  "audioop_rms fragment width =
     (case check_width width of
        Some e \<Rightarrow> Inl e
      | None \<Rightarrow>
          Inr (if fragment = [] then 0
               else nat \<lfloor>sqrt (real_of_int (sum_list (map (\<lambda>v. v * v) fragment)) /
                                real (length fragment))\<rfloor>))"

definition audioop_lin2lin :: "int list \<Rightarrow> nat \<Rightarrow> nat \<Rightarrow> error + int list" where
  "audioop_lin2lin fragment width newwidth =
     (case check_width width of
        Some e \<Rightarrow> Inl e
      | None \<Rightarrow>
          (case check_width newwidth of
             Some e \<Rightarrow> Inl e
           | None \<Rightarrow>
               Inr (map (\<lambda>v. if width \<le> newwidth then v * 2 ^ (8 * (newwidth - width))
                              else v div 2 ^ (8 * (width - newwidth)))
                      fragment)))"

definition audioop_ratecv ::
  "pydub \<Rightarrow> int list \<Rightarrow> nat \<Rightarrow> nat \<Rightarrow> int \<Rightarrow> int \<Rightarrow> error + int list" where
  "audioop_ratecv lib fragment width nchannels inrate outrate =
     (case check_width width of
        Some e \<Rightarrow> Inl e
      | None \<Rightarrow>
          if nchannels < 1 then Inl (LibraryError ''# of channels should be >= 1'')
          else if length fragment mod nchannels \<noteq> 0
            then Inl (LibraryError ''not a whole number of frames'')
          else if inrate \<le> 0 \<or> outrate \<le> 0 then Inl (LibraryError ''sampling rate not > 0'')
          else Inr (ratecv lib fragment width nchannels inrate outrate))"

text \<open>The metadata and the lengths of a segment. \<^verbatim>\<open>len(segment)\<close> is in milliseconds.\<close>

definition frame_width :: "audio \<Rightarrow> nat" where
  "frame_width a = channels a * sample_width a"

definition frame_count :: "audio \<Rightarrow> error + nat" where
  "frame_count a =
     (if frame_width a = 0 then Inl (ZeroDivisionError ''integer division or modulo by zero'')
      else Inr ((length (data a) * sample_width a) div frame_width a))"

definition len_ms :: "audio \<Rightarrow> error + int" where
  "len_ms a =
     (case frame_count a of
        Inl e \<Rightarrow> Inl e
      | Inr n \<Rightarrow>
          if frame_rate a = 0 then Inl (ZeroDivisionError ''float division by zero'')
          else Inr (py_round (1000 * (real n / real_of_int (frame_rate a)))))"

text \<open>\<^verbatim>\<open>frame_count(ms=val)\<close> and \<^verbatim>\<open>_parse_position(val)\<close>: the frame at a millisecond.\<close>

definition frames_of_ms :: "audio \<Rightarrow> int \<Rightarrow> real" where
  "frames_of_ms a ms = real_of_int ms * (real_of_int (frame_rate a) / 1000)"

definition parse_position :: "audio \<Rightarrow> int \<Rightarrow> error + int" where
  "parse_position a val =
     (if val < 0
      then (case len_ms a of
              Inl e \<Rightarrow> Inl e
            | Inr l \<Rightarrow> Inr (py_int (frames_of_ms a (l - \<bar>val\<bar>))))
      else Inr (py_int (frames_of_ms a val)))"

text \<open>
  \<^verbatim>\<open>segment[start:end]\<close>, in milliseconds, a bound left out being \<open>None\<close>: both bounds
  are cut at the length in milliseconds and turned into frames; where the samples end
  before the last frame asked for, up to two milliseconds of silence are filled in.
\<close>

definition getitem :: "pydub \<Rightarrow> audio \<Rightarrow> int option \<Rightarrow> int option \<Rightarrow> error + audio" where
  "getitem lib a start0 end0 =
     (case len_ms a of
        Inl e \<Rightarrow> Inl e
      | Inr l \<Rightarrow>
          (case parse_position a (min (case start0 of None \<Rightarrow> 0 | Some s \<Rightarrow> s) l) of
             Inl e \<Rightarrow> Inl e
           | Inr start_frame \<Rightarrow>
               (case parse_position a (min (case end0 of None \<Rightarrow> l | Some e \<Rightarrow> e) l) of
                  Inl e \<Rightarrow> Inl e
                | Inr end_frame \<Rightarrow>
                    (let start_sample = start_frame * int (channels a);
                         end_sample = end_frame * int (channels a);
                         chunk = py_slice (data a) start_sample end_sample;
                         missing_frames =
                           (end_sample - start_sample - int (length chunk)) div int (channels a)
                     in if missing_frames = 0 then Inr (a\<lparr>data := chunk\<rparr>)
                        else if real_of_int missing_frames > frames_of_ms a 2
                          then Inl (LibraryError ''You should never be filling in more than 2 ms with silence here'')
                        else (case audioop_mul lib (py_slice chunk 0 (int (channels a)))
                                     (sample_width a) (Finite 0) of
                                Inl e \<Rightarrow> Inl e
                              | Inr silence \<Rightarrow>
                                  Inr (a\<lparr>data := chunk @
                                          concat (replicate (nat missing_frames) silence)\<rparr>))))))"

text \<open>\<^verbatim>\<open>set_channels\<close>, \<^verbatim>\<open>set_frame_rate\<close>, \<^verbatim>\<open>set_sample_width\<close> and \<^verbatim>\<open>_sync\<close>, which
  brings two segments to the larger of their channel counts, frame rates and widths.\<close>

definition set_channels :: "audio \<Rightarrow> nat \<Rightarrow> error + audio" where
  "set_channels a n =
     (if n = channels a then Inr a
      else if n = 2 \<and> channels a = 1 then
        (case check_width (sample_width a) of
           Some e \<Rightarrow> Inl e
         | None \<Rightarrow>
             Inr (a\<lparr>data := concat (map (\<lambda>v. [fbound (sample_width a) (real_of_int v),
                                                  fbound (sample_width a) (real_of_int v)])
                                       (data a)),
                    channels := 2\<rparr>))
      else if n = 1 \<and> channels a = 2 then
        (case check_width (sample_width a) of
           Some e \<Rightarrow> Inl e
         | None \<Rightarrow>
             if length (data a) mod 2 \<noteq> 0 then Inl (LibraryError ''not a whole number of frames'')
             else Inr (a\<lparr>data := map (\<lambda>k. fbound (sample_width a)
                                               (real_of_int (data a ! (2 * k)) * (1 / 2) +
                                                real_of_int (data a ! (2 * k + 1)) * (1 / 2)))
                                       [0..<length (data a) div 2],
                         channels := 1\<rparr>))
      else if n = 1 then
        Inr (a\<lparr>data := map (\<lambda>k. sum_list (map (\<lambda>c. data a ! (k * channels a + c) div int (channels a))
                                                  [0..<channels a]))
                             [0..<length (data a) div channels a],
               channels := 1\<rparr>)
      else if channels a = 1 then
        Inr (a\<lparr>data := concat (map (\<lambda>v. replicate n v) (data a)), channels := n\<rparr>)
      else Inl (ValueError ''AudioSegment.set_channels only supports mono-to-multi channel and multi-to-mono channel conversion''))"

definition set_frame_rate :: "pydub \<Rightarrow> audio \<Rightarrow> int \<Rightarrow> error + audio" where
  "set_frame_rate lib a rate =
     (if rate = frame_rate a then Inr a
      else if data a \<noteq> [] then
        (case audioop_ratecv lib (data a) (sample_width a) (channels a) (frame_rate a) rate of
           Inl e \<Rightarrow> Inl e
         | Inr converted \<Rightarrow> Inr (a\<lparr>data := converted, frame_rate := rate\<rparr>))
      else Inr (a\<lparr>frame_rate := rate\<rparr>))"

definition set_sample_width :: "audio \<Rightarrow> nat \<Rightarrow> error + audio" where
  "set_sample_width a width =
     (if width = sample_width a then Inr a
      else (case audioop_lin2lin (data a) (sample_width a) width of
              Inl e \<Rightarrow> Inl e
            | Inr converted \<Rightarrow> Inr (a\<lparr>data := converted, sample_width := width\<rparr>)))"

definition sync1 :: "pydub \<Rightarrow> nat \<Rightarrow> int \<Rightarrow> nat \<Rightarrow> audio \<Rightarrow> error + audio" where
  "sync1 lib n rate width seg =
     (case set_channels seg n of
        Inl e \<Rightarrow> Inl e
      | Inr s1 \<Rightarrow>
          (case set_frame_rate lib s1 rate of
             Inl e \<Rightarrow> Inl e
           | Inr s2 \<Rightarrow> set_sample_width s2 width))"

definition sync :: "pydub \<Rightarrow> audio \<Rightarrow> audio \<Rightarrow> error + (audio \<times> audio)" where
  "sync lib seg1 seg2 =
     (let n = max (channels seg1) (channels seg2);
          rate = max (frame_rate seg1) (frame_rate seg2);
          width = max (sample_width seg1) (sample_width seg2)
      in case sync1 lib n rate width seg1 of
           Inl e \<Rightarrow> Inl e
         | Inr s1 \<Rightarrow>
             (case sync1 lib n rate width seg2 of
                Inl e \<Rightarrow> Inl e
              | Inr s2 \<Rightarrow> Inr (s1, s2)))"

text \<open>\<^verbatim>\<open>AudioSegment.silent(duration)\<close>, at its default rate of 11025 frames a second, and
  \<^verbatim>\<open>seg1 + seg2\<close> of two segments, which is \<^verbatim>\<open>seg1.append(seg2, crossfade=0)\<close>.\<close>

definition silent :: "int \<Rightarrow> audio" where
  "silent duration =
     \<lparr>data = replicate (nat (py_int (11025 * (real_of_int duration / 1000)))) 0,
      sample_width = 2, frame_rate = 11025, channels = 1\<rparr>"

definition append :: "pydub \<Rightarrow> audio \<Rightarrow> audio \<Rightarrow> error + audio" where
  "append lib seg1 seg2 =
     (case sync lib seg1 seg2 of
        Inl e \<Rightarrow> Inl e
      | Inr (s1, s2) \<Rightarrow> Inr (s1\<lparr>data := data s1 @ data s2\<rparr>))"

text \<open>\<^verbatim>\<open>segment.apply_gain(db)\<close>; \<^verbatim>\<open>segment + db\<close> is \<^verbatim>\<open>apply_gain(db)\<close> and
  \<^verbatim>\<open>segment - db\<close> is \<^verbatim>\<open>apply_gain(-db)\<close>. \<^verbatim>\<open>db_to_float(db)\<close> is \<open>10 ** (db / 20)\<close>.\<close>

fun db_to_float :: "pyfloat \<Rightarrow> pyfloat" where
  "db_to_float (Finite db) = Finite (10 powr (db / 20))"
| "db_to_float PosInf = PosInf"
| "db_to_float NegInf = Finite 0"
| "db_to_float NaN = NaN"

definition apply_gain :: "pydub \<Rightarrow> audio \<Rightarrow> pyfloat \<Rightarrow> error + audio" where
  "apply_gain lib a volume_change =
     (case audioop_mul lib (data a) (sample_width a) (db_to_float volume_change) of
        Inl e \<Rightarrow> Inl e
      | Inr d \<Rightarrow> Inr (a\<lparr>data := d\<rparr>))"

text \<open>\<^verbatim>\<open>segment.dBFS\<close>: the loudness relative to full scale, \<open>-inf\<close> for a segment whose
  rms is 0.\<close>

definition max_possible_amplitude :: "audio \<Rightarrow> real" where
  "max_possible_amplitude a = 2 ^ (sample_width a * 8) / 2"

definition dBFS :: "audio \<Rightarrow> error + pyfloat" where
  "dBFS a =
     (case audioop_rms (data a) (sample_width a) of
        Inl e \<Rightarrow> Inl e
      | Inr rms \<Rightarrow>
          if rms = 0 then Inr NegInf
          else Inr (Finite (20 * log 10 (real rms / max_possible_amplitude a))))"

text \<open>
  \<^verbatim>\<open>seg.overlay(other, position)\<close> with its defaults (once, no gain): both segments are
  brought to one format; the result is the receiver up to \<open>position\<close>, then the sum of the
  receiver and \<open>other\<close>, cut at the end of the receiver, then what is left of the receiver.
\<close>

definition overlay :: "pydub \<Rightarrow> audio \<Rightarrow> audio \<Rightarrow> int \<Rightarrow> error + audio" where
  "overlay lib self seg position =
     (case sync lib self seg of
        Inl e \<Rightarrow> Inl e
      | Inr (seg1, seg2) \<Rightarrow>
          (case getitem lib seg1 None (Some position) of
             Inl e \<Rightarrow> Inl e
           | Inr head \<Rightarrow>
               (case getitem lib seg1 (Some position) None of
                  Inl e \<Rightarrow> Inl e
                | Inr rest \<Rightarrow>
                    (let remaining = length (data rest);
                         seg2_data = (if length (data seg2) \<ge> remaining
                                      then take remaining (data seg2) else data seg2);
                         seg2_len = length seg2_data
                     in case audioop_add (take seg2_len (data rest)) seg2_data
                               (sample_width seg1) of
                          Inl e \<Rightarrow> Inl e
                        | Inr mixed \<Rightarrow>
                            Inr (seg1\<lparr>data := data head @ mixed @
                                               drop seg2_len (data rest)\<rparr>)))))"

subsection \<open>The kernels of speechaug.py\<close>

text \<open>
  \<open>add_noise\<close> of speechaug.py. Its first line, \<^verbatim>\<open>duration_ms = len(audio)\<close>, stands
  before the \<^verbatim>\<open>try\<close> statement; \<open>add_noise_try\<close> is the body of the \<^verbatim>\<open>try\<close> statement,
  lines 11 to 24.
\<close>

definition add_noise_try ::
  "pydub \<Rightarrow> audio \<Rightarrow> string \<Rightarrow> real \<Rightarrow> int \<Rightarrow> 'a world_scheme \<Rightarrow>
   (error + audio) \<times> 'a world_scheme" where
  "add_noise_try lib audio noise_type noise_level duration_ms w =
     (if noise_type = ''white'' \<or> noise_type = ''pink'' \<or> noise_type = ''brown'' then
        (case to_audio_segment lib noise_type duration_ms (rand w) of
           (Inl e, rs) \<Rightarrow> (Inl e, w\<lparr>rand := rs\<rparr>)
         | (Inr noise, rs) \<Rightarrow>
             (and_then (len_ms audio) (\<lambda>l.
                if l = 0 then Inr audio
                else
                  and_then (dBFS noise) (\<lambda>noise_dBFS.
                  and_then (dBFS audio) (\<lambda>audio_dBFS.
                  and_then (apply_gain lib noise
                              (float_neg (float_sub (float_sub noise_dBFS audio_dBFS)
                                            (Finite noise_level)))) (\<lambda>noise'.
                  overlay lib audio noise' 0)))),
              w\<lparr>rand := rs\<rparr>))
      else (Inl (ValueError (''Invalid noise type: '' @ noise_type)), w))"

definition add_noise_audio ::
  "pydub \<Rightarrow> audio \<Rightarrow> string \<Rightarrow> real \<Rightarrow> 'a world_scheme \<Rightarrow> (error + audio) \<times> 'a world_scheme" where
  "add_noise_audio lib audio noise_type noise_level w =
     (case len_ms audio of
        Inl e \<Rightarrow> (Inl e, w)
      | Inr duration_ms \<Rightarrow>
          (case add_noise_try lib audio noise_type noise_level duration_ms w of
             (Inl e, w') \<Rightarrow> (Inr audio, print (''Error adding noise: '' @ str e) w')
           | (Inr result, w') \<Rightarrow> (Inr result, w')))"

text \<open>\<open>time_stretch\<close> and \<open>pitch_shift\<close>: \<^verbatim>\<open>audio._spawn(audio.raw_data, overrides)\<close> is
  the segment with the same samples and another frame rate.\<close>

definition time_stretch :: "pydub \<Rightarrow> audio \<Rightarrow> real \<Rightarrow> 'a world_scheme \<Rightarrow> audio \<times> 'a world_scheme" where
  "time_stretch lib audio rate w =
     (case set_frame_rate lib
             (audio\<lparr>frame_rate := py_int (real_of_int (frame_rate audio) * rate)\<rparr>)
             (frame_rate audio) of
        Inl e \<Rightarrow> (audio, print (''Error in time stretching: '' @ str e) w)
      | Inr result \<Rightarrow> (result, w))"

definition pitch_shift :: "pydub \<Rightarrow> audio \<Rightarrow> real \<Rightarrow> 'a world_scheme \<Rightarrow> audio \<times> 'a world_scheme" where
  "pitch_shift lib audio semitones w =
     (let new_sample_rate = py_int (real_of_int (frame_rate audio) * (2 powr (semitones / 12)))
      in case set_frame_rate lib (audio\<lparr>frame_rate := new_sample_rate\<rparr>) (frame_rate audio) of
           Inl e \<Rightarrow> (audio, print (''Error in pitch shifting: '' @ str e) w)
         | Inr result \<Rightarrow> (result, w))"

definition volume_adjust :: "pydub \<Rightarrow> audio \<Rightarrow> real \<Rightarrow> 'a world_scheme \<Rightarrow> audio \<times> 'a world_scheme" where
  "volume_adjust lib audio db_change w =
     (case apply_gain lib audio (Finite db_change) of
        Inl e \<Rightarrow> (audio, print (''Error adjusting volume: '' @ str e) w)
      | Inr result \<Rightarrow> (result, w))"

text \<open>\<open>reverb_effect\<close>: \<open>reverb_effect_try\<close> is the body of its \<^verbatim>\<open>try\<close> statement, lines
  57 to 65.\<close>

definition reverb_effect_try :: "pydub \<Rightarrow> audio \<Rightarrow> real \<Rightarrow> error + audio" where
  "reverb_effect_try lib audio decay =
     (let orig = audio
      in and_then (apply_gain lib audio (Finite (- 6))) (\<lambda>echo.
           let delay = py_int (decay * 1000);
               silence = silent delay
           in and_then (append lib silence echo) (\<lambda>echo'.
                overlay lib orig echo' delay)))"

definition reverb_effect :: "pydub \<Rightarrow> audio \<Rightarrow> real \<Rightarrow> 'a world_scheme \<Rightarrow> audio \<times> 'a world_scheme" where
  "reverb_effect lib audio decay w =
     (case reverb_effect_try lib audio decay of
        Inl e \<Rightarrow> (audio, print (''Error adding reverb: '' @ str e) w)
      | Inr result \<Rightarrow> (result, w))"

subsection \<open>augment_audio\<close>

text \<open>The list \<^verbatim>\<open>augmentations\<close> of lines 71 to 77: five closures, each drawing its
  parameters, from left to right, when it is called.\<close>

definition noise_kernel :: "pydub \<Rightarrow> (audio, 'a) kernel" where
  "noise_kernel lib a w =
     (case choice [''white'', ''pink'', ''brown''] w of
        (noise_type, w1) \<Rightarrow>
          (case uniform (- 20) (- 10) w1 of
             (noise_level, w2) \<Rightarrow> add_noise_audio lib a noise_type noise_level w2))"

definition stretch_kernel :: "pydub \<Rightarrow> (audio, 'a) kernel" where
  "stretch_kernel lib a w =
     (case uniform 0.9 1.1 w of
        (rate, w1) \<Rightarrow> (case time_stretch lib a rate w1 of (result, w2) \<Rightarrow> (Inr result, w2)))"

definition pitch_kernel :: "pydub \<Rightarrow> (audio, 'a) kernel" where
  "pitch_kernel lib a w =
     (case uniform (- 2) 2 w of
        (semitones, w1) \<Rightarrow>
          (case pitch_shift lib a semitones w1 of (result, w2) \<Rightarrow> (Inr result, w2)))"

definition volume_kernel :: "pydub \<Rightarrow> (audio, 'a) kernel" where
  "volume_kernel lib a w =
     (case uniform (- 3) 3 w of
        (db_change, w1) \<Rightarrow>
          (case volume_adjust lib a db_change w1 of (result, w2) \<Rightarrow> (Inr result, w2)))"

definition reverb_kernel :: "pydub \<Rightarrow> (audio, 'a) kernel" where
  "reverb_kernel lib a w =
     (case uniform 0.1 0.5 w of
        (decay, w1) \<Rightarrow>
          (case reverb_effect lib a decay w1 of (result, w2) \<Rightarrow> (Inr result, w2)))"

definition augmentations_audio :: "pydub \<Rightarrow> (audio, 'a) kernel list" where
  "augmentations_audio lib =
     [noise_kernel lib, stretch_kernel lib, pitch_kernel lib, volume_kernel lib,
      reverb_kernel lib]"

text \<open>Lines 79 to 86, for a given list \<^verbatim>\<open>augmentations\<close>: the loop has no \<^verbatim>\<open>try\<close>
  statement of its own.\<close>

definition augment_audio_with :: "('b, 'a) kernel list \<Rightarrow> ('b, 'a) kernel" where
  "augment_audio_with augs audio w =
     (case select_augmentations 3 augs w of
        (Inl e, w2) \<Rightarrow> (Inl e, w2)
      | (Inr selected_augmentations, w2) \<Rightarrow> apply_all selected_augmentations audio w2)"

definition augment_audio :: "pydub \<Rightarrow> (audio, 'a) kernel" where
  "augment_audio lib = augment_audio_with (augmentations_audio lib)"

subsection \<open>The driver's loop over the augmentations\<close>

text \<open>On the heap every kernel returns a segment of its own: pydub never writes into a
  segment.\<close>

definition augmentations_audio_ref :: "pydub \<Rightarrow> (ref, (audio, 'x) heap_world_ext) kernel list" where
  "augmentations_audio_ref lib = map returning_new (augmentations_audio lib)"

definition augment_audio_ref :: "pydub \<Rightarrow> (ref, (audio, 'x) heap_world_ext) kernel" where
  "augment_audio_ref lib = augment_audio_with (augmentations_audio_ref lib)"

text \<open>
  Lines 122 to 128 of speechaug.py, the loop \<^verbatim>\<open>for i in range(num_augmentations)\<close> on
  the segment \<open>audio\<close> that lines 108 to 115 loaded: \<open>augment_audio\<close> gets the loaded
  segment itself, and an exception ends one round of the loop only.
\<close>

definition aug_path :: "string \<Rightarrow> string \<Rightarrow> nat \<Rightarrow> string" where
  "aug_path output_folder filename i =
     output_folder @ ''/'' @ fst (splitext filename) @ ''_aug_'' @ str_nat (i + 1) @
     py_lower (snd (splitext filename))"

definition complain :: "string \<Rightarrow> nat \<Rightarrow> error \<Rightarrow> 'a world_scheme \<Rightarrow> 'a world_scheme" where
  "complain filename i e w =
     print (''Error creating augmentation '' @ str_nat (i + 1) @ '' for '' @ filename @
            '': '' @ str e) w"

text \<open>One round of the loop, lines 123 to 128.\<close>

definition audio_copy ::
  "pydub \<Rightarrow> string \<Rightarrow> string \<Rightarrow> ref \<Rightarrow> nat \<Rightarrow> (audio, 'x) heap_world_scheme \<Rightarrow>
   (audio, 'x) heap_world_scheme" where
  "audio_copy lib output_folder filename audio i w =
     (case augment_audio_ref lib audio w of
        (Inl e, w1) \<Rightarrow> complain filename i e w1
      | (Inr augmented_audio, w1) \<Rightarrow>
          (case export lib (heap w1 ! augmented_audio) (aug_path output_folder filename i) of
             Some e \<Rightarrow> complain filename i e w1
           | None \<Rightarrow>
               w1\<lparr>files := files w1 @
                     [(aug_path output_folder filename i, heap w1 ! augmented_audio)]\<rparr>))"

fun audio_copies ::
  "pydub \<Rightarrow> string \<Rightarrow> string \<Rightarrow> ref \<Rightarrow> nat list \<Rightarrow> (audio, 'x) heap_world_scheme \<Rightarrow>
   (audio, 'x) heap_world_scheme" where
  "audio_copies lib output_folder filename audio [] w = w"
| "audio_copies lib output_folder filename audio (i # is) w =
     audio_copies lib output_folder filename audio is
       (audio_copy lib output_folder filename audio i w)"

section \<open>Vocabulary of the statements\<close>

text \<open>
  The \<open>k\<close>-th raw outcome a world will deliver, and the world after \<open>n\<close> draws.
\<close>

definition draw :: "'a world_scheme \<Rightarrow> nat \<Rightarrow> nat" where
  "draw w k = (if k < length (rand w) then rand w ! k else 0)"

definition skip :: "nat \<Rightarrow> 'a world_scheme \<Rightarrow> 'a world_scheme" where
  "skip n w = w\<lparr>rand := drop n (rand w)\<rparr>"

text \<open>
  The pixel that lines 15 to 19 of imgaug.py store for an RGB pixel and one noise value,
  and the noise value that the \<open>k\<close>-th draw of \<^verbatim>\<open>random.randint(-20, 20)\<close> returns.
\<close>

definition noisy :: "int \<Rightarrow> pixel \<Rightarrow> pixel" where
  "noisy noise p =
     (case p of
        PixRGB r g b \<Rightarrow>
          PixRGB (max 0 (min (r + noise) 255)) (max 0 (min (g + noise) 255))
            (max 0 (min (b + noise) 255))
      | _ \<Rightarrow> p)"

definition noise_at :: "'a world_scheme \<Rightarrow> nat \<Rightarrow> int" where
  "noise_at w k = - 20 + int (draw w k mod 41)"

text \<open>Every channel of a pixel is a byte.\<close>

definition in_range :: "pixel \<Rightarrow> bool" where
  "in_range p =
     (case p of
        PixL v \<Rightarrow> 0 \<le> v \<and> v \<le> 255
      | PixP k \<Rightarrow> k \<le> 255
      | PixRGB r g b \<Rightarrow> 0 \<le> r \<and> r \<le> 255 \<and> 0 \<le> g \<and> g \<le> 255 \<and> 0 \<le> b \<and> b \<le> 255
      | PixRGBA r g b a \<Rightarrow>
          0 \<le> r \<and> r \<le> 255 \<and> 0 \<le> g \<and> g \<le> 255 \<and> 0 \<le> b \<and> b \<le> 255 \<and> 0 \<le> a \<and> a \<le> 255)"

text \<open>The same rotation applied \<open>n\<close> times, each to the result of the one before.\<close>

fun rotate_times :: "nat \<Rightarrow> int \<Rightarrow> image \<Rightarrow> image option" where
  "rotate_times 0 angle img = Some img"
| "rotate_times (Suc n) angle img = Option.bind (rotate img angle) (rotate_times n angle)"

text \<open>A step that touches nothing of the world but the random source and standard
  output; in particular it leaves the heap and the files as they are.\<close>

definition only_rand_out :: "'a world_scheme \<Rightarrow> 'a world_scheme \<Rightarrow> bool" where
  "only_rand_out w w' = (w' = w\<lparr>rand := rand w', out := out w'\<rparr>)"

text \<open>
  Two properties of a kernel on references. Called on a reference at or above \<open>n\<close>, it
  leaves the first \<open>n\<close> objects of the heap as they are and returns a reference at or above
  \<open>n\<close>; or it never writes into an object at all, and only makes new ones.
\<close>

definition writes_above :: "nat \<Rightarrow> (ref, ('o, 'x) heap_world_ext) kernel \<Rightarrow> bool" where
  "writes_above n hk =
     (\<forall>r w res w'. hk r w = (res, w') \<and> n \<le> r \<and> r < length (heap w) \<longrightarrow>
        take n (heap w') = take n (heap w) \<and> length (heap w) \<le> length (heap w') \<and>
        (\<forall>r'. res = Inr r' \<longrightarrow> n \<le> r' \<and> r' < length (heap w')))"

definition never_writes :: "(ref, ('o, 'x) heap_world_ext) kernel \<Rightarrow> bool" where
  "never_writes hk =
     (\<forall>r w res w'. hk r w = (res, w') \<longrightarrow>
        (\<exists>new. heap w' = heap w @ new) \<and>
        (\<forall>r'. res = Inr r' \<longrightarrow> r' < length (heap w')))"

text \<open>Libraries for concrete runs: a PIL whose three filters reject palette images, as
  PIL's do, and return their input otherwise; and a pydub whose resampling repeats or
  drops frames, whose generators turn raw outcomes into samples, and whose encoder accepts
  every segment.\<close>

definition example_pil :: pil where
  "example_pil =
     \<lparr>GaussianBlur = (\<lambda>radius img. if mode img = ModeP
                         then Inl (ValueError ''image has wrong mode'') else Inr img),
      Brightness = (\<lambda>factor img. if mode img = ModeP
                         then Inl (ValueError ''image has wrong mode'') else Inr img),
      Contrast = (\<lambda>factor img. if mode img = ModeP
                         then Inl (ValueError ''image has wrong mode'') else Inr img)\<rparr>"

definition example_pydub :: pydub where
  "example_pydub =
     \<lparr>ratecv = (\<lambda>fragment width nchannels inrate outrate.
                  concat (map (\<lambda>k. take nchannels
                                     (drop ((k * nat inrate div nat outrate) * nchannels) fragment))
                            [0..<(length fragment div nchannels) * nat outrate div nat inrate])),
      to_audio_segment = (\<lambda>noise_type duration rs.
                  (Inr \<lparr>data = map (\<lambda>r. int (r mod 6553) - 3276)
                                  (take (nat (py_int (44100 * (real_of_int duration / 1000))))
                                     (rs @ replicate
                                        (nat (py_int (44100 * (real_of_int duration / 1000)))) 0)),
                        sample_width = 2, frame_rate = 44100, channels = 1\<rparr>,
                   drop (nat (py_int (44100 * (real_of_int duration / 1000)))) rs)),
      mul_not_finite = (\<lambda>fragment width factor.
                  Inl (ValueError ''cannot convert float NaN to integer'')),
      export = (\<lambda>segment path. None)\<rparr>"

section \<open>The random source\<close>

lemma skip_0 [simp]: "skip 0 w = w"
  by (simp add: skip_def)

lemma skip_skip [simp]: "skip m (skip n w) = skip (n + m) w"
  by (simp add: skip_def add.commute)

lemma draw_skip [simp]: "draw (skip n w) k = draw w (n + k)"
  by (auto simp: draw_def skip_def)

lemma out_skip [simp]: "out (skip n w) = out w"
  by (simp add: skip_def)

lemma rand_skip [simp]: "rand (skip n w) = drop n (rand w)"
  by (simp add: skip_def)

lemma next_raw_draw: "next_raw w = (draw w 0, skip 1 w)"
  by (cases "rand w") (auto simp: next_raw_def draw_def skip_def)

lemma randbelow_draw: "randbelow n w = (draw w 0 mod n, skip 1 w)"
  by (simp add: randbelow_def next_raw_draw)

lemma randint_draw: "randint a b w = (a + int (draw w 0 mod nat (b - a + 1)), skip 1 w)"
  by (simp add: randint_def randbelow_draw)

lemma noise_at_skip [simp]: "noise_at (skip n w) k = noise_at w (n + k)"
  by (simp add: noise_at_def)

section \<open>add_noise: one pass over the pixels\<close>

lemma nth_list_update_any:
  "xs[i := x] ! j = (if i = j \<and> i < length xs then x else xs ! j)"
  by (cases "i < length xs") (auto simp: nth_list_update list_update_beyond)

lemma rows_putpixel:
  "rows (putpixel img i j p) ! j' ! i' =
     (if j' = j \<and> i' = i \<and> j < length (rows img) \<and> i < length (rows img ! j) then p
      else rows img ! j' ! i')"
  by (auto simp: putpixel_def nth_list_update_any)

lemma putpixel_shape [simp]:
  "mode (putpixel img i j p) = mode img"
  "isize (putpixel img i j p) = isize img"
  "length (rows (putpixel img i j p)) = length (rows img)"
  "length (rows (putpixel img i j p) ! j') = length (rows img ! j')"
  by (auto simp: putpixel_def nth_list_update_any)

lemma in_image_putpixel [simp]: "in_image (putpixel img i j p) i' j' = in_image img i' j'"
  by (simp add: in_image_def)

lemma add_noise_inner_run:
  assumes "distinct js"
    and "\<forall>j\<in>set js. in_image img i j \<and> has_mode ModeRGB (rows img ! j ! i)"
  shows "\<exists>img'. add_noise_inner i js img w = (None, img', skip (length js) w) \<and>
           mode img' = mode img \<and> isize img' = isize img \<and>
           length (rows img') = length (rows img) \<and>
           (\<forall>j'. length (rows img' ! j') = length (rows img ! j')) \<and>
           (\<forall>k<length js. rows img' ! (js ! k) ! i = noisy (noise_at w k) (rows img ! (js ! k) ! i)) \<and>
           (\<forall>i' j'. \<not> (i' = i \<and> j' \<in> set js) \<longrightarrow> rows img' ! j' ! i' = rows img ! j' ! i')"
  using assms
proof (induction js arbitrary: img w)
  case Nil
  then show ?case by simp
next
  case (Cons j js)
  from Cons.prems have inj: "in_image img i j" and hm: "has_mode ModeRGB (rows img ! j ! i)"
    by auto
  from hm obtain r g b where p: "rows img ! j ! i = PixRGB r g b"
    by (cases "rows img ! j ! i") auto
  define q where "q = noisy (noise_at w 0) (PixRGB r g b)"
  define img1 where "img1 = putpixel img i j q"
  have step: "add_noise_inner i (j # js) img w = add_noise_inner i js img1 (skip 1 w)"
    using inj p by (simp add: getpixel_def randint_draw img1_def q_def noisy_def noise_at_def)
  have dj: "distinct js" and jn: "j \<notin> set js" using Cons.prems by auto
  have pre: "\<forall>j'\<in>set js. in_image img1 i j' \<and> has_mode ModeRGB (rows img1 ! j' ! i)"
    using Cons.prems jn by (auto simp: img1_def rows_putpixel)
  from Cons.IH[OF dj pre, of "skip 1 w"] obtain img' where
    r: "add_noise_inner i js img1 (skip 1 w) = (None, img', skip (length js) (skip 1 w))"
    and m: "mode img' = mode img1" "isize img' = isize img1"
      "length (rows img') = length (rows img1)"
      "\<forall>j'. length (rows img' ! j') = length (rows img1 ! j')"
    and t: "\<forall>k<length js. rows img' ! (js ! k) ! i = noisy (noise_at (skip 1 w) k) (rows img1 ! (js ! k) ! i)"
    and u: "\<forall>i' j'. \<not> (i' = i \<and> j' \<in> set js) \<longrightarrow> rows img' ! j' ! i' = rows img1 ! j' ! i'"
    by blast
  have inr: "j < length (rows img)" "i < length (rows img ! j)"
    using inj by (auto simp: in_image_def)
  have touched: "rows img' ! ((j # js) ! k) ! i = noisy (noise_at w k) (rows img ! ((j # js) ! k) ! i)"
    if "k < length (j # js)" for k
  proof (cases k)
    case 0
    have "rows img' ! j ! i = rows img1 ! j ! i" using u jn by blast
    also have "\<dots> = q" using inr by (simp add: img1_def rows_putpixel)
    finally show ?thesis using 0 p by (simp add: q_def)
  next
    case (Suc k')
    then have k': "k' < length js" using that by simp
    then have ne: "js ! k' \<noteq> j" using jn by (metis nth_mem)
    have "rows img' ! (js ! k') ! i = noisy (noise_at (skip 1 w) k') (rows img1 ! (js ! k') ! i)"
      using t k' by blast
    also have "rows img1 ! (js ! k') ! i = rows img ! (js ! k') ! i"
      using ne by (simp add: img1_def rows_putpixel)
    finally show ?thesis using Suc by simp
  qed
  have untouched: "rows img' ! j' ! i' = rows img ! j' ! i'"
    if "\<not> (i' = i \<and> j' \<in> set (j # js))" for i' j'
  proof -
    have "rows img' ! j' ! i' = rows img1 ! j' ! i'" using u that by auto
    also have "\<dots> = rows img ! j' ! i'" using that by (auto simp: img1_def rows_putpixel)
    finally show ?thesis .
  qed
  show ?case
    using step r m touched untouched by (simp add: img1_def)
qed


lemma in_image_shape:
  assumes "isize img' = isize img" "length (rows img') = length (rows img)"
    "\<forall>j'. length (rows img' ! j') = length (rows img ! j')"
  shows "in_image img' i j = in_image img i j"
  using assms by (simp add: in_image_def)

lemma add_noise_outer_run:
  assumes "distinct is" and "H = snd (isize img)"
    and "\<forall>i\<in>set is. \<forall>j<H. in_image img i j \<and> has_mode ModeRGB (rows img ! j ! i)"
  shows "\<exists>img'. add_noise_outer is img w = (None, img', skip (length is * H) w) \<and>
           mode img' = mode img \<and> isize img' = isize img \<and>
           length (rows img') = length (rows img) \<and>
           (\<forall>j'. length (rows img' ! j') = length (rows img ! j')) \<and>
           (\<forall>k<length is. \<forall>j<H.
              rows img' ! j ! (is ! k) = noisy (noise_at w (k * H + j)) (rows img ! j ! (is ! k))) \<and>
           (\<forall>i' j'. \<not> (i' \<in> set is \<and> j' < H) \<longrightarrow> rows img' ! j' ! i' = rows img ! j' ! i')"
  using assms
proof (induction "is" arbitrary: img w)
  case Nil
  then show ?case by simp
next
  case (Cons i "is")
  have H: "H = snd (isize img)" by fact
  have col: "\<forall>j\<in>set [0..<H]. in_image img i j \<and> has_mode ModeRGB (rows img ! j ! i)"
    using Cons.prems(3) by simp
  from add_noise_inner_run[OF _ col, of w] obtain img1 where
    r1: "add_noise_inner i [0..<H] img w = (None, img1, skip H w)"
    and m1: "mode img1 = mode img" "isize img1 = isize img"
      "length (rows img1) = length (rows img)"
      "\<forall>j'. length (rows img1 ! j') = length (rows img ! j')"
    and t1: "\<forall>k<H. rows img1 ! k ! i = noisy (noise_at w k) (rows img ! k ! i)"
    and u1: "\<forall>i' j'. \<not> (i' = i \<and> j' < H) \<longrightarrow> rows img1 ! j' ! i' = rows img ! j' ! i'"
    by auto
  have di: "distinct is" and ini: "i \<notin> set is" using Cons.prems(1) by auto
  have H1: "H = snd (isize img1)" using H m1 by simp
  have pre: "\<forall>i'\<in>set is. \<forall>j<H. in_image img1 i' j \<and> has_mode ModeRGB (rows img1 ! j ! i')"
  proof (intro ballI allI impI)
    fix i' j assume a: "i' \<in> set is" "j < H"
    then have "i' \<noteq> i" using ini by auto
    then have "rows img1 ! j ! i' = rows img ! j ! i'" using u1 by blast
    moreover have "in_image img1 i' j = in_image img i' j"
      using m1 by (intro in_image_shape) auto
    ultimately show "in_image img1 i' j \<and> has_mode ModeRGB (rows img1 ! j ! i')"
      using Cons.prems(3) a by simp
  qed
  from Cons.IH[OF di H1 pre, of "skip H w"] obtain img' where
    r: "add_noise_outer is img1 (skip H w) = (None, img', skip (length is * H) (skip H w))"
    and m: "mode img' = mode img1" "isize img' = isize img1"
      "length (rows img') = length (rows img1)"
      "\<forall>j'. length (rows img' ! j') = length (rows img1 ! j')"
    and t: "\<forall>k<length is. \<forall>j<H.
              rows img' ! j ! (is ! k) = noisy (noise_at (skip H w) (k * H + j)) (rows img1 ! j ! (is ! k))"
    and u: "\<forall>i' j'. \<not> (i' \<in> set is \<and> j' < H) \<longrightarrow> rows img' ! j' ! i' = rows img1 ! j' ! i'"
    by blast
  have run: "add_noise_outer (i # is) img w = (None, img', skip (length (i # is) * H) w)"
    using r1 r H by (simp add: add.commute)
  have touched: "rows img' ! j ! ((i # is) ! k) = noisy (noise_at w (k * H + j)) (rows img ! j ! ((i # is) ! k))"
    if "k < length (i # is)" "j < H" for k j
  proof (cases k)
    case 0
    have "rows img' ! j ! i = rows img1 ! j ! i" using u ini by blast
    also have "\<dots> = noisy (noise_at w j) (rows img ! j ! i)" using t1 that by blast
    finally show ?thesis using 0 by simp
  next
    case (Suc k')
    then have k': "k' < length is" using that by simp
    then have ne: "is ! k' \<noteq> i" using ini by (metis nth_mem)
    have "rows img' ! j ! (is ! k') = noisy (noise_at (skip H w) (k' * H + j)) (rows img1 ! j ! (is ! k'))"
      using t k' that by blast
    also have "rows img1 ! j ! (is ! k') = rows img ! j ! (is ! k')"
      using ne u1 by blast
    finally show ?thesis using Suc by (simp add: add.assoc)
  qed
  have untouched: "rows img' ! j' ! i' = rows img ! j' ! i'"
    if "\<not> (i' \<in> set (i # is) \<and> j' < H)" for i' j'
  proof -
    have "rows img' ! j' ! i' = rows img1 ! j' ! i'" using u that by auto
    also have "\<dots> = rows img ! j' ! i'" using u1 that by auto
    finally show ?thesis .
  qed
  show ?case
    using run m m1 touched untouched by simp
qed


lemma wf_image_nth:
  "wf_image img \<longleftrightarrow>
     length (rows img) = snd (isize img) \<and>
     (\<forall>j<snd (isize img). length (rows img ! j) = fst (isize img) \<and>
        (\<forall>i<fst (isize img). has_mode (mode img) (rows img ! j ! i)))"
  by (auto simp: wf_image_def list_all_length)

lemma has_mode_to_rgb: "has_mode ModeRGB (to_rgb pal p)"
  by (cases p) (auto split: prod.splits)

lemma to_rgb_id: "has_mode ModeRGB p \<Longrightarrow> to_rgb pal p = p"
  by (cases p) auto

lemma wf_convert_RGB:
  assumes "wf_image img"
  shows "wf_image (convert_RGB img)"
  using assms by (auto simp: wf_image_nth convert_RGB_def has_mode_to_rgb)

lemma rows_convert_RGB:
  assumes "wf_image img" "i < fst (isize img)" "j < snd (isize img)"
  shows "rows (convert_RGB img) ! j ! i = to_rgb (palette img) (rows img ! j ! i)"
  using assms by (auto simp: wf_image_nth convert_RGB_def)

lemma add_noise_run:
  assumes wf: "wf_image img"
  shows "\<exists>img'. add_noise img w = (Inr img', skip (fst (isize img) * snd (isize img)) w) \<and>
           mode img' = ModeRGB \<and> isize img' = isize img \<and>
           length (rows img') = snd (isize img) \<and>
           (\<forall>j<snd (isize img). length (rows img' ! j) = fst (isize img)) \<and>
           (\<forall>i<fst (isize img). \<forall>j<snd (isize img).
              rows img' ! j ! i =
                noisy (noise_at w (i * snd (isize img) + j)) (to_rgb (palette img) (rows img ! j ! i)))"
proof -
  define c where "c = (if mode img \<noteq> ModeRGB then convert_RGB img else img)"
  define W where "W = fst (isize img)"
  define H where "H = snd (isize img)"
  have wfc: "wf_image c" using wf by (simp add: c_def wf_convert_RGB)
  have mc: "mode c = ModeRGB" by (simp add: c_def convert_RGB_def)
  have sc: "isize c = isize img" by (simp add: c_def convert_RGB_def)
  have rc: "rows c ! j ! i = to_rgb (palette img) (rows img ! j ! i)" if "i < W" "j < H" for i j
  proof (cases "mode img = ModeRGB")
    case True
    then have "has_mode ModeRGB (rows img ! j ! i)"
      using wf that by (simp add: wf_image_nth W_def H_def)
    then show ?thesis using True by (simp add: c_def to_rgb_id)
  next
    case False
    then show ?thesis using wf that by (simp add: c_def rows_convert_RGB W_def H_def)
  qed
  have pre: "\<forall>i\<in>set [0..<W]. \<forall>j<H. in_image c i j \<and> has_mode ModeRGB (rows c ! j ! i)"
    using wfc mc sc by (auto simp: wf_image_nth in_image_def W_def H_def)
  have Hc: "H = snd (isize c)" by (simp add: sc H_def)
  from add_noise_outer_run[OF _ Hc pre, of w] obtain img' where
    r: "add_noise_outer [0..<W] c w = (None, img', skip (W * H) w)"
    and m: "mode img' = mode c" "isize img' = isize c" "length (rows img') = length (rows c)"
      "\<forall>j'. length (rows img' ! j') = length (rows c ! j')"
    and t: "\<forall>k<W. \<forall>j<H. rows img' ! j ! k = noisy (noise_at w (k * H + j)) (rows c ! j ! k)"
    by auto
  have "add_noise img w = (Inr img', skip (W * H) w)"
    using r by (simp add: add_noise_def add_noise_pixels_def c_def W_def sc[unfolded c_def])
  moreover have "length (rows img') = H" "\<forall>j<H. length (rows img' ! j) = W"
    using m wfc sc by (auto simp: wf_image_nth W_def H_def)
  moreover have "\<forall>i<W. \<forall>j<H. rows img' ! j ! i = noisy (noise_at w (i * H + j)) (to_rgb (palette img) (rows img ! j ! i))"
    using t rc by simp
  ultimately show ?thesis
    using m mc sc unfolding W_def H_def by auto
qed

lemma in_range_noisy: "has_mode ModeRGB p \<Longrightarrow> in_range (noisy n p)"
  by (cases p) (auto simp: in_range_def noisy_def)

lemma has_mode_noisy: "has_mode ModeRGB p \<Longrightarrow> has_mode ModeRGB (noisy n p)"
  by (cases p) (auto simp: noisy_def)

lemma noise_at_bounds: "- 20 \<le> noise_at w k \<and> noise_at w k \<le> 20"
proof -
  have "draw w k mod 41 < 41" by simp
  then show ?thesis unfolding noise_at_def by linarith
qed

section \<open>The image composer\<close>

lemma try_augmentations_no_error:
  "apply_all ks img w = (Inr img', w') \<Longrightarrow> try_augmentations ks img w = (img', w')"
  by (induction ks arbitrary: img w) (auto split: prod.splits sum.splits)


lemma apply_all_cases:
  "(\<exists>b' w'. apply_all ks b w = (Inr b', w')) \<or>
   (\<exists>before failing after b1 w1 e w2.
      ks = before @ failing # after \<and> apply_all before b w = (Inr b1, w1) \<and>
      failing b1 w1 = (Inl e, w2))"
proof (induction ks arbitrary: b w)
  case Nil
  then show ?case by simp
next
  case (Cons k ks)
  obtain res w' where k: "k b w = (res, w')" by (cases "k b w")
  show ?case
  proof (cases res)
    case (Inl e)
    have "k # ks = [] @ k # ks \<and> apply_all [] b w = (Inr b, w) \<and> k b w = (Inl e, w')"
      using k Inl by simp
    then show ?thesis by blast
  next
    case (Inr b')
    from Cons.IH[of b' w'] show ?thesis
    proof
      assume "\<exists>b'' w''. apply_all ks b' w' = (Inr b'', w'')"
      then show ?thesis using k Inr by simp
    next
      assume "\<exists>before failing after b1 w1 e w2.
        ks = before @ failing # after \<and> apply_all before b' w' = (Inr b1, w1) \<and>
        failing b1 w1 = (Inl e, w2)"
      then obtain before failing after b1 w1 e w2 where
        h: "ks = before @ failing # after" "apply_all before b' w' = (Inr b1, w1)"
          "failing b1 w1 = (Inl e, w2)" by blast
      have "k # ks = (k # before) @ failing # after \<and>
            apply_all (k # before) b w = (Inr b1, w1) \<and> failing b1 w1 = (Inl e, w2)"
        using h k Inr by simp
      then show ?thesis by blast
    qed
  qed
qed

section \<open>Rotation\<close>

lemma rotate_90_square:
  "fst (isize img) = snd (isize img) \<Longrightarrow> rotate img 90 = Some (transpose_image img ROTATE_90)"
  by (simp add: rotate_def Let_def)

lemma quarter_turn_grid:
  assumes "isize img = (n, n)"
    and "rows img = map (\<lambda>y. map (\<lambda>x. f x y) [0..<n]) [0..<n]"
  shows "transpose_image img ROTATE_90 =
           img\<lparr>rows := map (\<lambda>y. map (\<lambda>x. f (n - 1 - y) x) [0..<n]) [0..<n]\<rparr>"
proof -
  have "map (\<lambda>y. map (\<lambda>x. rows img ! x ! (n - 1 - y)) [0..<n]) [0..<n] =
        map (\<lambda>y. map (\<lambda>x. f (n - 1 - y) x) [0..<n]) [0..<n]"
    using assms(2) by (auto intro!: map_cong)
  then show ?thesis using assms(1) by simp
qed

lemma square_grid:
  assumes "wf_image img" and "isize img = (n, n)"
  shows "rows img = map (\<lambda>y. map (\<lambda>x. rows img ! y ! x) [0..<n]) [0..<n]"
  using assms by (auto simp: wf_image_nth intro!: nth_equalityI)

lemma four_quarter_turns:
  assumes wf: "wf_image img" and sq: "fst (isize img) = snd (isize img)"
  shows "rotate_times 4 90 img = Some img"
proof -
  define n where "n = fst (isize img)"
  have sz: "isize img = (n, n)" using sq by (simp add: n_def prod_eq_iff)
  define f0 where "f0 = (\<lambda>x y. rows img ! y ! x)"
  define img1 where "img1 = img\<lparr>rows := map (\<lambda>y. map (\<lambda>x. f0 (n - 1 - y) x) [0..<n]) [0..<n]\<rparr>"
  define img2 where "img2 = img1\<lparr>rows := map (\<lambda>y. map (\<lambda>x. f0 (n - 1 - x) (n - 1 - y)) [0..<n]) [0..<n]\<rparr>"
  define img3 where "img3 = img2\<lparr>rows := map (\<lambda>y. map (\<lambda>x. f0 (n - 1 - (n - 1 - y)) (n - 1 - x)) [0..<n]) [0..<n]\<rparr>"
  define img4 where "img4 = img3\<lparr>rows := map (\<lambda>y. map (\<lambda>x. f0 (n - 1 - (n - 1 - x)) (n - 1 - (n - 1 - y))) [0..<n]) [0..<n]\<rparr>"
  have r0: "rows img = map (\<lambda>y. map (\<lambda>x. f0 x y) [0..<n]) [0..<n]"
    unfolding f0_def using wf sz by (rule square_grid)
  have t1: "transpose_image img ROTATE_90 = img1"
    unfolding img1_def using sz r0 by (rule quarter_turn_grid)
  have s1: "isize img1 = (n, n)" by (simp add: img1_def sz)
  have t2: "transpose_image img1 ROTATE_90 = img2"
    unfolding img2_def by (rule quarter_turn_grid[OF s1]) (simp add: img1_def)
  have s2: "isize img2 = (n, n)" by (simp add: img2_def s1)
  have t3: "transpose_image img2 ROTATE_90 = img3"
    unfolding img3_def by (rule quarter_turn_grid[OF s2]) (simp add: img2_def)
  have s3: "isize img3 = (n, n)" by (simp add: img3_def s2)
  have t4: "transpose_image img3 ROTATE_90 = img4"
    unfolding img4_def by (rule quarter_turn_grid[OF s3]) (simp add: img3_def)
  have "map (\<lambda>y. map (\<lambda>x. f0 (n - 1 - (n - 1 - x)) (n - 1 - (n - 1 - y))) [0..<n]) [0..<n] =
        map (\<lambda>y. map (\<lambda>x. f0 x y) [0..<n]) [0..<n]"
    by (auto intro!: map_cong)
  then have "rows img4 = rows img" using r0 by (simp add: img4_def)
  then have e: "img4 = img" by (simp add: img4_def img3_def img2_def img1_def)
  have "rotate_times 4 90 img = Some img4"
    using s1 s2 s3 sz t1 t2 t3 t4
    by (simp add: numeral_eq_Suc rotate_90_square)
  with e show ?thesis by simp
qed

section \<open>Claims about add_noise (imgaug.py)\<close>

text \<open>
  Claim C8. For every image PIL can hold and every outcome of the noise draws,
  \<open>add_noise\<close> returns an image (it does not raise), the image has the size of the input
  and a pixel at every position, and every channel of every pixel of it lies in
  \<open>[0, 255]\<close>.
\<close>

theorem add_noise_output_in_range:
  assumes "wf_image img"
  shows "\<exists>img' w'. add_noise img w = (Inr img', w') \<and> wf_image img' \<and>
           isize img' = isize img \<and> list_all (list_all in_range) (rows img')"
proof -
  from add_noise_run[OF assms, of w] obtain img' where
    r: "add_noise img w = (Inr img', skip (fst (isize img) * snd (isize img)) w)"
    and m: "mode img' = ModeRGB" "isize img' = isize img"
    and l: "length (rows img') = snd (isize img)"
      "\<forall>j<snd (isize img). length (rows img' ! j) = fst (isize img)"
    and t: "\<forall>i<fst (isize img). \<forall>j<snd (isize img).
              rows img' ! j ! i =
                noisy (noise_at w (i * snd (isize img) + j)) (to_rgb (palette img) (rows img ! j ! i))"
    by blast
  have "list_all (list_all in_range) (rows img')"
    using l t by (auto simp: list_all_length in_range_noisy has_mode_to_rgb)
  moreover have "wf_image img'"
    using l t m by (auto simp: wf_image_nth has_mode_noisy has_mode_to_rgb)
  ultimately show ?thesis using r m by blast
qed

theorem add_noise_output_in_range_witness:
  "wf_image \<lparr>mode = ModeL, isize = (2, 2), rows = [[PixL 0, PixL 250], [PixL 3, PixL 4]], palette = []\<rparr> \<and>
   (\<exists>img' w'.
      add_noise \<lparr>mode = ModeL, isize = (2, 2), rows = [[PixL 0, PixL 250], [PixL 3, PixL 4]], palette = []\<rparr>
        \<lparr>rand = [0, 40, 7], out = []\<rparr> = (Inr img', w') \<and>
      wf_image img' \<and>
      isize img' = isize \<lparr>mode = ModeL, isize = (2, 2), rows = [[PixL 0, PixL 250], [PixL 3, PixL 4]], palette = []\<rparr> \<and>
      list_all (list_all in_range) (rows img'))"
proof -
  have h: "wf_image \<lparr>mode = ModeL, isize = (2, 2), rows = [[PixL 0, PixL 250], [PixL 3, PixL 4]], palette = []\<rparr>"
    by (simp add: wf_image_def)
  show ?thesis
    using h add_noise_output_in_range[OF h, of "\<lparr>rand = [0, 40, 7], out = []\<rparr>"] by blast
qed

text \<open>
  Claim C2, as stated, fails: the claim has three independent draws for each pixel, one
  for each channel. On the one-pixel image \<open>(100, 100, 100)\<close> and the draws
  \<open>5, 30, 7\<close> (noise \<open>-15, 10, -13\<close>) the claim gives the pixel \<open>(85, 110, 87)\<close> and
  uses three draws. The code uses one draw and stores \<open>(85, 85, 85)\<close>; the other two
  draws are still in the source. No draws at all make the code store \<open>(85, 110, 87)\<close>.
\<close>

theorem add_noise_three_draws_counterexample:
  "add_noise \<lparr>mode = ModeRGB, isize = (1, 1), rows = [[PixRGB 100 100 100]], palette = []\<rparr>
     \<lparr>rand = [5, 30, 7], out = []\<rparr> =
     (Inr \<lparr>mode = ModeRGB, isize = (1, 1), rows = [[PixRGB 85 85 85]], palette = []\<rparr>,
      \<lparr>rand = [30, 7], out = []\<rparr>) \<and>
   \<not> (\<exists>w. fst (add_noise \<lparr>mode = ModeRGB, isize = (1, 1), rows = [[PixRGB 100 100 100]], palette = []\<rparr> w) =
           Inr \<lparr>mode = ModeRGB, isize = (1, 1), rows = [[PixRGB 85 110 87]], palette = []\<rparr>)"
proof -
  let ?img = "\<lparr>mode = ModeRGB, isize = (1, 1), rows = [[PixRGB 100 100 100]], palette = []\<rparr>"
  have run: "add_noise ?img \<lparr>rand = [5, 30, 7], out = []\<rparr> =
     (Inr \<lparr>mode = ModeRGB, isize = (1, 1), rows = [[PixRGB 85 85 85]], palette = []\<rparr>,
      \<lparr>rand = [30, 7], out = []\<rparr>)"
    by (simp add: add_noise_def add_noise_pixels_def getpixel_def in_image_def putpixel_def randint_def
        randbelow_def next_raw_def)
  have wf: "wf_image ?img" by (simp add: wf_image_def)
  have never: "fst (add_noise ?img w) \<noteq>
      Inr \<lparr>mode = ModeRGB, isize = (1, 1), rows = [[PixRGB 85 110 87]], palette = []\<rparr>" for w
  proof
    assume a: "fst (add_noise ?img w) =
      Inr \<lparr>mode = ModeRGB, isize = (1, 1), rows = [[PixRGB 85 110 87]], palette = []\<rparr>"
    from add_noise_run[OF wf, of w] obtain img' where
      r: "fst (add_noise ?img w) = Inr img'"
      and t: "rows img' ! 0 ! 0 = noisy (noise_at w 0) (PixRGB 100 100 100)"
      by auto
    from a r have "img' = \<lparr>mode = ModeRGB, isize = (1, 1), rows = [[PixRGB 85 110 87]], palette = []\<rparr>"
      by simp
    then have e: "rows img' ! 0 ! 0 = PixRGB 85 110 87" by simp
    obtain v where v: "noisy (noise_at w 0) (PixRGB 100 100 100) = PixRGB v v v"
      by (simp add: noisy_def)
    have "PixRGB v v v = PixRGB 85 110 87"
      by (rule trans[OF v[symmetric] trans[OF t[symmetric] e]])
    then show False by auto
  qed
  from run never show ?thesis by blast
qed

text \<open>
  Claim C2, amended. For every image PIL can hold, \<open>add_noise\<close> draws one noise value
  in \<open>{-20..20}\<close> for each pixel, \<open>width * height\<close> draws in all, column by column
  (the pixel in column \<open>i\<close> and row \<open>j\<close> gets draw number \<open>i * height + j\<close>), adds that
  one value to each of the three channels of the pixel (after the conversion to RGB) and
  clamps each sum to \<open>[0, 255]\<close>.
\<close>

theorem add_noise_one_draw_per_pixel:
  assumes "wf_image img"
  shows "\<exists>img'. add_noise img w = (Inr img', skip (fst (isize img) * snd (isize img)) w) \<and>
           (\<forall>i<fst (isize img). \<forall>j<snd (isize img).
              rows img' ! j ! i =
                noisy (noise_at w (i * snd (isize img) + j)) (to_rgb (palette img) (rows img ! j ! i)) \<and>
              - 20 \<le> noise_at w (i * snd (isize img) + j) \<and>
              noise_at w (i * snd (isize img) + j) \<le> 20)"
  using add_noise_run[OF assms, of w] noise_at_bounds by blast

theorem add_noise_one_draw_per_pixel_witness:
  "wf_image \<lparr>mode = ModeRGB, isize = (2, 1), rows = [[PixRGB 250 100 7, PixRGB 1 2 3]], palette = []\<rparr> \<and>
   fst (add_noise \<lparr>mode = ModeRGB, isize = (2, 1), rows = [[PixRGB 250 100 7, PixRGB 1 2 3]], palette = []\<rparr>
          \<lparr>rand = [40, 9, 11], out = []\<rparr>) =
     Inr \<lparr>mode = ModeRGB, isize = (2, 1), rows = [[PixRGB 255 120 27, PixRGB 0 0 0]], palette = []\<rparr> \<and>
   rand (snd (add_noise \<lparr>mode = ModeRGB, isize = (2, 1), rows = [[PixRGB 250 100 7, PixRGB 1 2 3]], palette = []\<rparr>
          \<lparr>rand = [40, 9, 11], out = []\<rparr>)) = [11]"
proof -
  let ?img = "\<lparr>mode = ModeRGB, isize = (2, 1), rows = [[PixRGB 250 100 7, PixRGB 1 2 3]], palette = []\<rparr>"
  let ?w = "\<lparr>rand = [40, 9, 11], out = []\<rparr>"
  have wf: "wf_image ?img" by (simp add: wf_image_def)
  from add_noise_one_draw_per_pixel[OF wf, of ?w] obtain img' where
    r: "add_noise ?img ?w = (Inr img', skip 2 ?w)" by auto
  have "add_noise ?img ?w =
     (Inr \<lparr>mode = ModeRGB, isize = (2, 1), rows = [[PixRGB 255 120 27, PixRGB 0 0 0]], palette = []\<rparr>,
      \<lparr>rand = [11], out = []\<rparr>)"
    by (simp add: add_noise_def add_noise_pixels_def getpixel_def in_image_def putpixel_def randint_def
        randbelow_def next_raw_def numeral_2_eq_2)
  with r wf show ?thesis by (simp add: skip_def)
qed

section \<open>Claims about augment_image (imgaug.py)\<close>




section \<open>Claims about the rotation kernel (imgaug.py)\<close>

text \<open>
  Claim C4, as stated, fails on an image that is not square. \<^verbatim>\<open>img.rotate(90)\<close> keeps
  the canvas of the input: on the image of width 2 and height 1 with the pixels
  \<open>(1, 2, 3)\<close> and \<open>(4, 5, 6)\<close>, one quarter turn gives \<open>(4, 5, 6)\<close> and a black pixel,
  and four quarter turns give two black pixels, not the input.
\<close>

theorem rotate_four_times_counterexample:
  "rotate \<lparr>mode = ModeRGB, isize = (2, 1), rows = [[PixRGB 1 2 3, PixRGB 4 5 6]], palette = []\<rparr> 90 =
     Some \<lparr>mode = ModeRGB, isize = (2, 1), rows = [[PixRGB 4 5 6, PixRGB 0 0 0]], palette = []\<rparr> \<and>
   rotate_times 4 90
     \<lparr>mode = ModeRGB, isize = (2, 1), rows = [[PixRGB 1 2 3, PixRGB 4 5 6]], palette = []\<rparr> =
     Some \<lparr>mode = ModeRGB, isize = (2, 1), rows = [[PixRGB 0 0 0, PixRGB 0 0 0]], palette = []\<rparr> \<and>
   rotate_times 4 90
     \<lparr>mode = ModeRGB, isize = (2, 1), rows = [[PixRGB 1 2 3, PixRGB 4 5 6]], palette = []\<rparr> \<noteq>
     Some \<lparr>mode = ModeRGB, isize = (2, 1), rows = [[PixRGB 1 2 3, PixRGB 4 5 6]], palette = []\<rparr>"
  by (simp add: numeral_eq_Suc rotate_def cos_sin_minus_def transform_AFFINE_def Let_def)

text \<open>
  Claim C4, amended. For every square image, rotating by 90 degrees four times returns
  the image unchanged, pixel for pixel. (On a square image each quarter turn is a
  transposition of the pixels; on any other image the canvas stays, the turned content is
  cropped and the rest is filled with zero pixels.)
\<close>

theorem rotate_four_times_square:
  assumes "wf_image img" and "fst (isize img) = snd (isize img)"
  shows "rotate_times 4 90 img = Some img"
  using assms by (rule four_quarter_turns)

theorem rotate_four_times_square_witness:
  "wf_image \<lparr>mode = ModeL, isize = (2, 2), rows = [[PixL 1, PixL 2], [PixL 3, PixL 4]], palette = []\<rparr> \<and>
   rotate \<lparr>mode = ModeL, isize = (2, 2), rows = [[PixL 1, PixL 2], [PixL 3, PixL 4]], palette = []\<rparr> 90 =
     Some \<lparr>mode = ModeL, isize = (2, 2), rows = [[PixL 2, PixL 4], [PixL 1, PixL 3]], palette = []\<rparr> \<and>
   rotate_times 4 90
     \<lparr>mode = ModeL, isize = (2, 2), rows = [[PixL 1, PixL 2], [PixL 3, PixL 4]], palette = []\<rparr> =
     Some \<lparr>mode = ModeL, isize = (2, 2), rows = [[PixL 1, PixL 2], [PixL 3, PixL 4]], palette = []\<rparr>"
proof -
  let ?img = "\<lparr>mode = ModeL, isize = (2, 2), rows = [[PixL 1, PixL 2], [PixL 3, PixL 4]], palette = []\<rparr>"
  have wf: "wf_image ?img" by (simp add: wf_image_def)
  have sq: "fst (isize ?img) = snd (isize ?img)" by simp
  have r: "rotate ?img 90 =
     Some \<lparr>mode = ModeL, isize = (2, 2), rows = [[PixL 2, PixL 4], [PixL 1, PixL 3]], palette = []\<rparr>"
    by (simp add: rotate_def Let_def numeral_2_eq_2)
  show ?thesis
    using wf r rotate_four_times_square[OF wf sq] by simp
qed

end
